theory Spec2Isabelle
  imports Complex_Main
begin

section \<open>Data model\<close>

text \<open>
  The page component keeps four pieces of React state that every revision shares:
  \<open>botState\<close>, \<open>isConnected\<close>, \<open>audioLevel\<close> and \<open>transcript\<close>. Each revision adds its
  own refs. The shared part is a record; each revision extends it.

  A \<open>Date\<close> is an instant, here the number of milliseconds since the epoch, and the handlers
  that read the clock (\<open>new Date()\<close>) take it as the argument \<open>now\<close>. \<open>audioLevel\<close> holds
  the value of a JavaScript number, a real; the model itself writes only 0 there, every other
  number written is an argument of the callback that writes it.
\<close>

datatype bot_state = Idle | Listening | Processing | Speaking

datatype role = User | Bot | System

record message =
  role :: role
  msg_text :: string
  timestamp :: nat

record app =
  botState :: bot_state
  isConnected :: bool
  audioLevel :: real
  transcript :: "message list"

text \<open>\<open>addMessage\<close>: \<open>setTranscript((prev) => [...prev, { role, text, timestamp: new Date() }])\<close>.\<close>

definition addMessage :: "role \<Rightarrow> string \<Rightarrow> nat \<Rightarrow> 'a app_scheme \<Rightarrow> 'a app_scheme" where
  "addMessage r t now s =
     s\<lparr>transcript := transcript s @ [\<lparr>role = r, msg_text = t, timestamp = now\<rparr>]\<rparr>"

text \<open>\<open>lastMessage\<close>: \<open>transcript.length > 0 ? transcript[transcript.length - 1] : null\<close>.\<close>

definition lastMessage :: "'a app_scheme \<Rightarrow> message option" where
  "lastMessage s =
     (if length (transcript s) > 0 then Some (transcript s ! (length (transcript s) - 1))
      else None)"

section \<open>The mocked revision (src/app/page.tsx)\<close>

text \<open>
  The host's timers are part of the state. \<open>setTimeout\<close> callbacks are closures of the
  component; there are three of them, named by what they do. A pending timeout is the
  callback with its delay. \<open>setInterval\<close> returns a handle, a positive integer, that
  \<open>intervalRef.current\<close> stores; \<open>intervals\<close> lists the intervals that are running, each with
  its period. The only interval callback is the one of \<open>simulateVoiceActivity\<close>.
\<close>

datatype timeout_cb = ConnectDone | ResponseReady | PlaybackDone

record mock_app = app +
  intervalRef :: "nat option"
  intervals :: "(nat \<times> nat) list"
  timeouts :: "(timeout_cb \<times> nat) list"
  timerSeq :: nat

definition mock_init :: mock_app where
  "mock_init =
     \<lparr>botState = Idle, isConnected = False, audioLevel = 0, transcript = [],
      intervalRef = None, intervals = [], timeouts = [], timerSeq = 0\<rparr>"

definition setTimeout :: "timeout_cb \<Rightarrow> nat \<Rightarrow> mock_app \<Rightarrow> mock_app" where
  "setTimeout cb delay s = s\<lparr>timeouts := timeouts s @ [(cb, delay)]\<rparr>"

definition clearInterval :: "nat \<Rightarrow> mock_app \<Rightarrow> mock_app" where
  "clearInterval h s = s\<lparr>intervals := filter (\<lambda>iv. fst iv \<noteq> h) (intervals s)\<rparr>"

text \<open>\<open>if (intervalRef.current) clearInterval(intervalRef.current)\<close>: \<open>null\<close> and 0 are falsy.\<close>

definition clearIntervalRef :: "mock_app \<Rightarrow> mock_app" where
  "clearIntervalRef s =
     (case intervalRef s of
        None \<Rightarrow> s
      | Some h \<Rightarrow> if h \<noteq> 0 then clearInterval h s else s)"

definition simulateVoiceActivity :: "mock_app \<Rightarrow> mock_app" where
  "simulateVoiceActivity s =
     (let s1 = clearIntervalRef s; h = Suc (timerSeq s1)
      in s1\<lparr>intervalRef := Some h, intervals := intervals s1 @ [(h, 100)], timerSeq := h\<rparr>)"

text \<open>
  The interval's callback: \<open>const newLevel = 0.3 + Math.random() * 0.7; setAudioLevel(newLevel)\<close>.
  The draw and the host's number arithmetic on it are not modelled: \<open>newLevel\<close>, the number
  the callback computed, is the argument.
\<close>

definition intervalTick :: "real \<Rightarrow> mock_app \<Rightarrow> mock_app" where
  "intervalTick newLevel s = s\<lparr>audioLevel := newLevel\<rparr>"

definition handleConnect :: "mock_app \<Rightarrow> mock_app" where
  "handleConnect s = setTimeout ConnectDone 1500 (s\<lparr>botState := Processing\<rparr>)"

definition connectDone :: "nat \<Rightarrow> mock_app \<Rightarrow> mock_app" where
  "connectDone now s =
     addMessage System ''Connected to HF Inference Model.'' now
       (s\<lparr>isConnected := True, botState := Idle\<rparr>)"

definition handleDisconnect :: "nat \<Rightarrow> mock_app \<Rightarrow> mock_app" where
  "handleDisconnect now s =
     addMessage System ''Disconnected.'' now
       (clearIntervalRef (s\<lparr>isConnected := False, botState := Idle, audioLevel := 0\<rparr>))"

definition userText :: string where
  "userText = ''Hello, I'' @ [CHR 0x27] @ ''d like to know more about the service.''"

definition botText :: string where
  "botText = ''I can certainly help with that. What specific features are you interested in?''"

definition playbackDone :: "nat \<Rightarrow> mock_app \<Rightarrow> mock_app" where
  "playbackDone now s =
     (clearIntervalRef ((addMessage Bot botText now s)\<lparr>botState := Idle\<rparr>))\<lparr>audioLevel := 0\<rparr>"

definition responseReady :: "nat \<Rightarrow> mock_app \<Rightarrow> mock_app" where
  "responseReady now s =
     setTimeout PlaybackDone 3000
       (simulateVoiceActivity (addMessage User userText now (s\<lparr>botState := Speaking\<rparr>)))"

definition toggleRecording :: "mock_app \<Rightarrow> mock_app" where
  "toggleRecording s =
     (if \<not> isConnected s then s
      else if botState s = Listening then
        setTimeout ResponseReady 1500
          ((clearIntervalRef (s\<lparr>botState := Processing\<rparr>))\<lparr>audioLevel := 0\<rparr>)
      else simulateVoiceActivity (s\<lparr>botState := Listening\<rparr>))"

text \<open>
  The event loop: a click on a control runs its handler; a pending timeout fires and is
  removed; a running interval ticks. A timeout that is not pending and an interval that is
  not running (one that was cleared) do nothing.
\<close>

datatype mock_event =
    ClickConnect
  | ClickDisconnect nat
  | ClickToggle
  | FireTimeout timeout_cb nat nat
  | Tick nat real

definition runTimeout :: "timeout_cb \<Rightarrow> nat \<Rightarrow> mock_app \<Rightarrow> mock_app" where
  "runTimeout cb now s =
     (case cb of
        ConnectDone \<Rightarrow> connectDone now s
      | ResponseReady \<Rightarrow> responseReady now s
      | PlaybackDone \<Rightarrow> playbackDone now s)"

fun mock_dispatch :: "mock_event \<Rightarrow> mock_app \<Rightarrow> mock_app" where
  "mock_dispatch ClickConnect s = handleConnect s"
| "mock_dispatch (ClickDisconnect now) s = handleDisconnect now s"
| "mock_dispatch ClickToggle s = toggleRecording s"
| "mock_dispatch (FireTimeout cb delay now) s =
     (if (cb, delay) \<in> set (timeouts s)
      then runTimeout cb now (s\<lparr>timeouts := remove1 (cb, delay) (timeouts s)\<rparr>)
      else s)"
| "mock_dispatch (Tick h newLevel) s =
     (if h \<in> fst ` set (intervals s) then intervalTick newLevel s else s)"

fun mock_run :: "mock_event list \<Rightarrow> mock_app \<Rightarrow> mock_app" where
  "mock_run [] s = s"
| "mock_run (e # es) s = mock_run es (mock_dispatch e s)"

inductive mock_reachable :: "mock_app \<Rightarrow> bool" where
  mock_reachable_init: "mock_reachable mock_init"
| mock_reachable_step: "mock_reachable s \<Longrightarrow> mock_reachable (mock_dispatch e s)"

section \<open>The view's controls\<close>

text \<open>
  The controls the page renders, the same in every revision: the orb, whose \<open>onClick\<close> is
  \<open>toggleRecording\<close>, always; the connect button when \<open>!isConnected\<close>; otherwise the
  disconnect button, the talk button (\<open>onClick={toggleRecording}\<close>) and the history button.
  No \<open>disabled\<close> is passed to any button, so \<open>Button\<close>'s default \<open>disabled = false\<close>
  holds; the talk button carries it as its argument.
\<close>

datatype control = Orb | ConnectButton | DisconnectButton | TalkButton bool | HistoryButton

definition controls :: "'a app_scheme \<Rightarrow> control list" where
  "controls s =
     Orb # (if \<not> isConnected s then [ConnectButton]
            else [DisconnectButton, TalkButton False, HistoryButton])"

section \<open>The live revision (src/unnamed/part_002)\<close>

text \<open>
  The awaited calls into the browser and the real-time SDK are outside the repository; what
  each returned is an argument of the handler that awaited it: a promise is \<open>Rejected\<close> with
  the error's message or \<open>Resolved\<close> with its value. A call that may throw is treated alike:
  \<open>Rejected\<close> with the message of what it threw, \<open>Resolved\<close> with what it returned.

  A \<open>Room\<close> is created by the component, which registers five listeners on it.
  \<open>roomRef.current\<close> holds the room or \<open>null\<close>. \<open>disconnectCalls\<close> records the rooms on which
  \<open>disconnect()\<close> has been called. \<open>frames\<close> lists the pending animation-frame requests;
  \<open>requestAnimationFrame\<close> returns a positive handle.
\<close>

datatype 'a outcome = Rejected string | Resolved 'a

datatype room_event = SignalConnected | Connected | Disconnected | TrackSubscribed | DataReceived

record room_handle =
  roomId :: nat
  listeners :: "room_event list"

record live_app = app +
  roomRef :: "room_handle option"
  roomSeq :: nat
  disconnectCalls :: "nat list"
  analyzerRef :: bool
  dataArrayRef :: "nat list option"
  animationFrameRef :: "nat option"
  frames :: "nat list"
  frameSeq :: nat

definition live_init :: live_app where
  "live_init =
     \<lparr>botState = Idle, isConnected = False, audioLevel = 0, transcript = [],
      roomRef = None, roomSeq = 0, disconnectCalls = [], analyzerRef = False,
      dataArrayRef = None, animationFrameRef = None, frames = [], frameSeq = 0\<rparr>"

text \<open>A string that may be \<open>undefined\<close>; \<open>undefined\<close> and the empty string are falsy.\<close>

definition truthy :: "string option \<Rightarrow> bool" where
  "truthy v = (case v of None \<Rightarrow> False | Some t \<Rightarrow> t \<noteq> [])"

definition newRoom :: "nat \<Rightarrow> room_handle" where
  "newRoom n =
     \<lparr>roomId = n,
      listeners = [SignalConnected, Connected, Disconnected, TrackSubscribed, DataReceived]\<rparr>"

text \<open>The \<open>catch\<close> block of \<open>handleConnect\<close>; \<open>e\<close> is \<open>(error as Error).message\<close>.\<close>

definition connectFailed :: "string \<Rightarrow> nat \<Rightarrow> live_app \<Rightarrow> live_app" where
  "connectFailed e now s =
     addMessage System (''Connection failed: '' @ e) now (s\<lparr>botState := Idle\<rparr>)"

text \<open>
  \<open>handleConnect\<close>, run from its call to its end. \<open>fetched\<close> is the outcome of
  \<open>fetch("/api/token")\<close> and \<open>response.json()\<close>: rejected, or the \<open>accessToken\<close> of the body
  (\<open>None\<close> when the body has none). \<open>joined\<close> is the outcome of \<open>room.connect(url, token)\<close>.
  \<open>now\<close> is the time of the call and \<open>later\<close> the time the \<open>catch\<close> block runs.
\<close>

definition live_handleConnect ::
  "nat \<Rightarrow> string option outcome \<Rightarrow> unit outcome \<Rightarrow> nat \<Rightarrow> live_app \<Rightarrow> live_app" where
  "live_handleConnect now fetched joined later s =
     (let s1 = addMessage System ''Connecting to Server...'' now (s\<lparr>botState := Processing\<rparr>)
      in case fetched of
           Rejected e \<Rightarrow> connectFailed e later s1
         | Resolved token \<Rightarrow>
             if \<not> truthy token then connectFailed ''No token received'' later s1
             else
               (let s2 = s1\<lparr>roomRef := Some (newRoom (Suc (roomSeq s1))),
                              roomSeq := Suc (roomSeq s1)\<rparr>
                in case joined of
                     Rejected e \<Rightarrow> connectFailed e later s2
                   | Resolved u \<Rightarrow> s2))"

text \<open>The listeners of \<open>RoomEvent.Connected\<close> and \<open>RoomEvent.Disconnected\<close>.\<close>

definition onConnected :: "nat \<Rightarrow> live_app \<Rightarrow> live_app" where
  "onConnected now s =
     addMessage System ''Secure Link Established.'' now
       (s\<lparr>isConnected := True, botState := Idle\<rparr>)"

definition onDisconnected :: "nat \<Rightarrow> live_app \<Rightarrow> live_app" where
  "onDisconnected now s =
     addMessage System ''Disconnected.'' now (s\<lparr>isConnected := False, botState := Idle\<rparr>)"

text \<open>\<open>if (animationFrameRef.current) cancelAnimationFrame(animationFrameRef.current)\<close>.\<close>

definition cancelAnimationFrameRef :: "live_app \<Rightarrow> live_app" where
  "cancelAnimationFrameRef s =
     (case animationFrameRef s of
        None \<Rightarrow> s
      | Some h \<Rightarrow> if h \<noteq> 0 then s\<lparr>frames := filter (\<lambda>f. f \<noteq> h) (frames s)\<rparr> else s)"

definition live_handleDisconnect :: "live_app \<Rightarrow> live_app" where
  "live_handleDisconnect s =
     (let s1 = (case roomRef s of
                  None \<Rightarrow> s
                | Some r \<Rightarrow> s\<lparr>disconnectCalls := disconnectCalls s @ [roomId r],
                               roomRef := None\<rparr>)
      in cancelAnimationFrameRef (s1\<lparr>isConnected := False, audioLevel := 0\<rparr>))"

text \<open>
  \<open>updateVolume\<close>, the animation-frame callback of \<open>setupRealVisualizer\<close>. \<open>read\<close> is the
  outcome of \<open>getByteFrequencyData\<close>: it threw, or it filled the array, \<open>freq i\<close> being the
  magnitude the analyser reports for bin \<open>i\<close>; the array holds bytes. The loop sums the bytes
  and the callback writes \<open>average / 100\<close>; that quotient is rounded by the host's number
  arithmetic, which is not modelled, and the number written is the argument \<open>level\<close>.
  The result is the state the call leaves, with the message of what it threw, if it threw.
\<close>

definition fftSize :: nat where
  "fftSize = 64"

definition frequencyBinCount :: nat where
  "frequencyBinCount = fftSize div 2"

definition updateVolume ::
  "(nat \<Rightarrow> nat) outcome \<Rightarrow> real \<Rightarrow> live_app \<Rightarrow> string option \<times> live_app" where
  "updateVolume read level s =
     (if \<not> analyzerRef s \<or> dataArrayRef s = None then (None, s)
      else
        (case read of
           Rejected e \<Rightarrow> (Some e, s)
         | Resolved freq \<Rightarrow>
             (let bufferLength = frequencyBinCount;
                  dataArray = map (\<lambda>i. freq i mod 256) [0..<bufferLength];
                  h = Suc (frameSeq s)
              in (None,
                  s\<lparr>dataArrayRef := Some dataArray, audioLevel := level,
                    animationFrameRef := Some h, frames := frames s @ [h], frameSeq := h\<rparr>))))"

text \<open>
  \<open>setupRealVisualizer\<close>. \<open>graph\<close> is the outcome of building the audio graph (the audio
  context, the analyser, the stream source and their connection), all of it before the refs
  are assigned: one of the calls threw, or all returned.
\<close>

definition setupRealVisualizer ::
  "unit outcome \<Rightarrow> (nat \<Rightarrow> nat) outcome \<Rightarrow> real \<Rightarrow> live_app \<Rightarrow> string option \<times> live_app" where
  "setupRealVisualizer graph read level s =
     (case graph of
        Rejected e \<Rightarrow> (Some e, s)
      | Resolved u \<Rightarrow>
          updateVolume read level
            (s\<lparr>analyzerRef := True, dataArrayRef := Some (replicate frequencyBinCount 0)\<rparr>))"

text \<open>The \<open>catch\<close> block of \<open>toggleRecording\<close>.\<close>

definition micDenied :: "nat \<Rightarrow> live_app \<Rightarrow> live_app" where
  "micDenied now s = (addMessage System ''Microphone access denied.'' now s)\<lparr>botState := Idle\<rparr>"

text \<open>
  \<open>toggleRecording\<close>. \<open>mic\<close> is the outcome of \<open>setMicrophoneEnabled(true)\<close>: rejected, or
  resolved with whether a publication with a track came back. \<open>stream\<close> is the outcome of
  \<open>new MediaStream([mediaStreamTrack])\<close>. Whatever is thrown inside the \<open>try\<close>, by the
  microphone, the stream or the visualizer, ends in the \<open>catch\<close> block. Stopping the local
  tracks and unpublishing them acts on the SDK only.
\<close>

definition live_toggleRecording ::
  "bool outcome \<Rightarrow> unit outcome \<Rightarrow> unit outcome \<Rightarrow> (nat \<Rightarrow> nat) outcome \<Rightarrow> real \<Rightarrow> nat \<Rightarrow>
     live_app \<Rightarrow> live_app" where
  "live_toggleRecording mic stream graph read level now s =
     (if \<not> isConnected s \<or> roomRef s = None then s
      else if botState s = Listening then
        cancelAnimationFrameRef (s\<lparr>botState := Processing, audioLevel := 0\<rparr>)
      else
        (let s1 = s\<lparr>botState := Listening\<rparr>
         in case mic of
              Rejected e \<Rightarrow> micDenied now s1
            | Resolved hasTrack \<Rightarrow>
                if hasTrack then
                  (case stream of
                     Rejected e \<Rightarrow> micDenied now s1
                   | Resolved u \<Rightarrow>
                       (case setupRealVisualizer graph read level s1 of
                          (Some e, s2) \<Rightarrow> micDenied now s2
                        | (None, s2) \<Rightarrow> s2))
                else s1))"

text \<open>
  The live event loop: the handlers of the controls, the unmount cleanup (which calls
  \<open>handleDisconnect\<close>), the room's events and the animation frames. The listeners of
  \<open>SignalConnected\<close>, \<open>TrackSubscribed\<close> and \<open>DataReceived\<close> leave the component's state alone
  (they log, attach an audio element, and parse a payload whose result is dropped). A frame
  callback that throws leaves the state as it was.
\<close>

datatype live_event =
    LiveConnect nat "string option outcome" "unit outcome" nat
  | LiveDisconnect
  | LiveToggle "bool outcome" "unit outcome" "unit outcome" "(nat \<Rightarrow> nat) outcome" real nat
  | RoomEmits nat room_event nat
  | Frame nat "(nat \<Rightarrow> nat) outcome" real

fun live_dispatch :: "live_event \<Rightarrow> live_app \<Rightarrow> live_app" where
  "live_dispatch (LiveConnect now fetched joined later) s =
     live_handleConnect now fetched joined later s"
| "live_dispatch LiveDisconnect s = live_handleDisconnect s"
| "live_dispatch (LiveToggle mic stream graph read level now) s =
     live_toggleRecording mic stream graph read level now s"
| "live_dispatch (RoomEmits rid ev now) s =
     (if 0 < rid \<and> rid \<le> roomSeq s then
        (case ev of
           Connected \<Rightarrow> onConnected now s
         | Disconnected \<Rightarrow> onDisconnected now s
         | SignalConnected \<Rightarrow> s
         | TrackSubscribed \<Rightarrow> s
         | DataReceived \<Rightarrow> s)
      else s)"
| "live_dispatch (Frame h read level) s =
     (if h \<in> set (frames s)
      then snd (updateVolume read level (s\<lparr>frames := remove1 h (frames s)\<rparr>))
      else s)"

fun live_run :: "live_event list \<Rightarrow> live_app \<Rightarrow> live_app" where
  "live_run [] s = s"
| "live_run (e # es) s = live_run es (live_dispatch e s)"

section \<open>The token endpoint (src/unnamed/part_003)\<close>

text \<open>
  \<open>AccessToken\<close> and its \<open>toJwt\<close> belong to the server SDK. A token is what the handler puts
  into it; \<open>toJwt\<close> is an argument of the handler. \<open>envKey\<close> and \<open>envSecret\<close> are
  \<open>process.env.LIVEKIT_API_KEY\<close> and \<open>process.env.LIVEKIT_API_SECRET\<close>, and \<open>rnd36\<close> is
  \<open>Math.random().toString(36)\<close>. Past the guard both variables are set, and \<open>the\<close> reads
  their values. \<open>NextResponse.json\<close> answers with status 200 unless told otherwise.
\<close>

record video_grant =
  roomJoin :: bool
  room :: string
  canPublish :: bool
  canSubscribe :: bool

record access_token =
  apiKey :: string
  apiSecret :: string
  identity :: string
  video :: "video_grant option"

datatype json_body = AccessTokenBody string | ErrorBody string

record response =
  status :: nat
  body :: json_body

definition AccessToken :: "string \<Rightarrow> string \<Rightarrow> string \<Rightarrow> access_token" where
  "AccessToken k sec ident = \<lparr>apiKey = k, apiSecret = sec, identity = ident, video = None\<rparr>"

definition addGrant :: "video_grant \<Rightarrow> access_token \<Rightarrow> access_token" where
  "addGrant g tok = tok\<lparr>video := Some g\<rparr>"

definition issuedToken :: "string \<Rightarrow> string \<Rightarrow> string \<Rightarrow> access_token" where
  "issuedToken k sec rnd36 =
     addGrant
       \<lparr>roomJoin = True, room = ''voice-bot-room'', canPublish = True, canSubscribe = True\<rparr>
       (AccessToken k sec (''user-'' @ drop 7 rnd36))"

definition GET ::
  "(access_token \<Rightarrow> string) \<Rightarrow> 'req \<Rightarrow> string option \<Rightarrow> string option \<Rightarrow> string \<Rightarrow> response" where
  "GET toJwt req envKey envSecret rnd36 =
     (if \<not> truthy envKey \<or> \<not> truthy envSecret
      then \<lparr>status = 500, body = ErrorBody ''Server misconfigured''\<rparr>
      else \<lparr>status = 200,
            body = AccessTokenBody (toJwt (issuedToken (the envKey) (the envSecret) rnd36))\<rparr>)"

section \<open>Example runs and the sampler invariant\<close>

text \<open>
  States reached from the initial one, used as concrete inputs below, and the sampler's
  contract, at most one loop at a time. For the mocked sampler: the running interval, if
  any, is the one \<open>intervalRef.current\<close> holds, its handle is positive and its period is
  100 ms. For the live sampler: the pending animation frame, if any, is the one
  \<open>animationFrameRef.current\<close> holds.
\<close>

definition connectedState :: mock_app where
  "connectedState = mock_run [ClickConnect, FireTimeout ConnectDone 1500 1] mock_init"

definition listeningState :: mock_app where
  "listeningState = mock_run [ClickToggle] connectedState"

definition processingState :: mock_app where
  "processingState = mock_run [ClickToggle] listeningState"

definition liveConnectedState :: live_app where
  "liveConnectedState =
     live_run [LiveConnect 0 (Resolved (Some ''jwt'')) (Resolved ()) 0, RoomEmits 1 Connected 1]
       live_init"

definition liveListeningState :: live_app where
  "liveListeningState =
     live_run [LiveToggle (Resolved True) (Resolved ()) (Resolved ()) (Resolved (\<lambda>i. 50)) (1 / 2) 2]
       liveConnectedState"

definition liveProcessingState :: live_app where
  "liveProcessingState =
     live_run [LiveToggle (Resolved True) (Resolved ()) (Resolved ()) (Resolved (\<lambda>i. 50)) (1 / 2) 3]
       liveListeningState"

definition liveTwoLoopsState :: live_app where
  "liveTwoLoopsState =
     live_run
       [RoomEmits 1 Disconnected 3,
        LiveConnect 4 (Resolved (Some ''jwt'')) (Resolved ()) 4,
        RoomEmits 2 Connected 5,
        LiveToggle (Resolved True) (Resolved ()) (Resolved ()) (Resolved (\<lambda>i. 50)) (1 / 2) 6]
       liveListeningState"

definition liveSamplerInv :: "live_app \<Rightarrow> bool" where
  "liveSamplerInv l =
     (frames l = [] \<or>
      (case animationFrameRef l of
         None \<Rightarrow> False
       | Some h \<Rightarrow> h \<noteq> 0 \<and> frames l = [h]))"

definition samplerInv :: "mock_app \<Rightarrow> bool" where
  "samplerInv s =
     (intervals s = [] \<or>
      (case intervalRef s of
         None \<Rightarrow> False
       | Some h \<Rightarrow> h \<noteq> 0 \<and> intervals s = [(h, 100)]))"

section \<open>Properties\<close>

subsection \<open>Unfolding sets and the example runs\<close>

lemmas mock_defs = handleConnect_def connectDone_def handleDisconnect_def playbackDone_def
  responseReady_def toggleRecording_def simulateVoiceActivity_def clearIntervalRef_def
  clearInterval_def setTimeout_def addMessage_def intervalTick_def runTimeout_def

lemmas live_defs = live_handleConnect_def connectFailed_def onConnected_def onDisconnected_def
  cancelAnimationFrameRef_def live_handleDisconnect_def updateVolume_def setupRealVisualizer_def
  live_toggleRecording_def micDenied_def addMessage_def

lemma connectedState_eq:
  "connectedState =
     \<lparr>botState = Idle, isConnected = True, audioLevel = 0,
      transcript = [\<lparr>role = System, msg_text = ''Connected to HF Inference Model.'', timestamp = 1\<rparr>],
      intervalRef = None, intervals = [], timeouts = [], timerSeq = 0\<rparr>"
  by (simp add: connectedState_def mock_init_def mock_defs)

lemma listeningState_eq:
  "listeningState =
     \<lparr>botState = Listening, isConnected = True, audioLevel = 0,
      transcript = [\<lparr>role = System, msg_text = ''Connected to HF Inference Model.'', timestamp = 1\<rparr>],
      intervalRef = Some 1, intervals = [(1, 100)], timeouts = [], timerSeq = 1\<rparr>"
  by (simp add: listeningState_def connectedState_eq mock_defs)

lemma processingState_eq:
  "processingState =
     \<lparr>botState = Processing, isConnected = True, audioLevel = 0,
      transcript = [\<lparr>role = System, msg_text = ''Connected to HF Inference Model.'', timestamp = 1\<rparr>],
      intervalRef = Some 1, intervals = [], timeouts = [(ResponseReady, 1500)], timerSeq = 1\<rparr>"
  by (simp add: processingState_def listeningState_eq mock_defs)

lemma liveConnectedState_eq:
  "liveConnectedState =
     \<lparr>botState = Idle, isConnected = True, audioLevel = 0,
      transcript =
        [\<lparr>role = System, msg_text = ''Connecting to Server...'', timestamp = 0\<rparr>,
         \<lparr>role = System, msg_text = ''Secure Link Established.'', timestamp = 1\<rparr>],
      roomRef = Some (newRoom 1), roomSeq = 1, disconnectCalls = [], analyzerRef = False,
      dataArrayRef = None, animationFrameRef = None, frames = [], frameSeq = 0\<rparr>"
  by (simp add: liveConnectedState_def live_init_def live_defs truthy_def)

lemma liveListeningState_eq:
  "liveListeningState =
     \<lparr>botState = Listening, isConnected = True, audioLevel = 1 / 2,
      transcript =
        [\<lparr>role = System, msg_text = ''Connecting to Server...'', timestamp = 0\<rparr>,
         \<lparr>role = System, msg_text = ''Secure Link Established.'', timestamp = 1\<rparr>],
      roomRef = Some (newRoom 1), roomSeq = 1, disconnectCalls = [], analyzerRef = True,
      dataArrayRef = Some (replicate 32 50), animationFrameRef = Some 1, frames = [1],
      frameSeq = 1\<rparr>"
  by (simp add: liveListeningState_def liveConnectedState_eq live_defs frequencyBinCount_def
        fftSize_def map_replicate_const)

lemma liveProcessingState_eq:
  "liveProcessingState =
     \<lparr>botState = Processing, isConnected = True, audioLevel = 0,
      transcript =
        [\<lparr>role = System, msg_text = ''Connecting to Server...'', timestamp = 0\<rparr>,
         \<lparr>role = System, msg_text = ''Secure Link Established.'', timestamp = 1\<rparr>],
      roomRef = Some (newRoom 1), roomSeq = 1, disconnectCalls = [], analyzerRef = True,
      dataArrayRef = Some (replicate 32 50), animationFrameRef = Some 1, frames = [],
      frameSeq = 1\<rparr>"
  by (simp add: liveProcessingState_def liveListeningState_eq live_defs)

lemma mock_reachable_run: "mock_reachable s \<Longrightarrow> mock_reachable (mock_run es s)"
  by (induction es arbitrary: s) (auto intro: mock_reachable_step)

lemma reachable_connectedState: "mock_reachable connectedState"
  unfolding connectedState_def by (rule mock_reachable_run [OF mock_reachable_init])

lemma reachable_listeningState: "mock_reachable listeningState"
  unfolding listeningState_def by (rule mock_reachable_run [OF reachable_connectedState])

lemma reachable_processingState: "mock_reachable processingState"
  unfolding processingState_def by (rule mock_reachable_run [OF reachable_listeningState])

subsection \<open>The sampler invariant holds in every reachable state\<close>

lemma samplerInv_clear: "samplerInv s \<Longrightarrow> intervals (clearIntervalRef s) = []"
  by (auto simp: samplerInv_def clearIntervalRef_def clearInterval_def split: option.splits)

lemma samplerInv_clearIntervalRef: "samplerInv s \<Longrightarrow> samplerInv (clearIntervalRef s)"
  using samplerInv_clear [of s] by (simp add: samplerInv_def)

lemma samplerInv_simulate: "samplerInv s \<Longrightarrow> samplerInv (simulateVoiceActivity s)"
  using samplerInv_clear [of s]
  by (simp add: samplerInv_def simulateVoiceActivity_def Let_def)

lemma samplerInv_frame [simp]:
  "samplerInv (s\<lparr>botState := b\<rparr>) = samplerInv s"
  "samplerInv (s\<lparr>isConnected := c\<rparr>) = samplerInv s"
  "samplerInv (s\<lparr>audioLevel := a\<rparr>) = samplerInv s"
  "samplerInv (s\<lparr>timeouts := ts\<rparr>) = samplerInv s"
  "samplerInv (addMessage r t now s) = samplerInv s"
  "samplerInv (setTimeout cb d s) = samplerInv s"
  by (simp_all add: samplerInv_def addMessage_def setTimeout_def split: option.splits)

lemma samplerInv_dispatch: "samplerInv s \<Longrightarrow> samplerInv (mock_dispatch e s)"
proof (cases e)
  case ClickConnect
  assume "samplerInv s"
  then show ?thesis using ClickConnect by (simp add: handleConnect_def)
next
  case (ClickDisconnect now)
  assume "samplerInv s"
  then show ?thesis using ClickDisconnect
    by (simp add: handleDisconnect_def samplerInv_clearIntervalRef)
next
  case ClickToggle
  assume "samplerInv s"
  then show ?thesis using ClickToggle
    by (simp add: toggleRecording_def samplerInv_clearIntervalRef samplerInv_simulate)
next
  case (FireTimeout cb delay now)
  assume "samplerInv s"
  then show ?thesis using FireTimeout
    by (cases cb)
       (simp_all add: runTimeout_def connectDone_def responseReady_def playbackDone_def
          samplerInv_clearIntervalRef samplerInv_simulate)
next
  case (Tick h newLevel)
  assume "samplerInv s"
  then show ?thesis using Tick by (simp add: intervalTick_def)
qed

lemma samplerInv_reachable: "mock_reachable s \<Longrightarrow> samplerInv s"
proof (induction rule: mock_reachable.induct)
  case mock_reachable_init
  show ?case by (simp add: samplerInv_def mock_init_def)
next
  case (mock_reachable_step s e)
  then show ?case by (simp add: samplerInv_dispatch)
qed

subsection \<open>What the handlers do to the transcript\<close>

lemma transcript_handleDisconnect:
  "transcript (handleDisconnect now s) =
     transcript s @ [\<lparr>role = System, msg_text = ''Disconnected.'', timestamp = now\<rparr>]"
  by (simp add: handleDisconnect_def addMessage_def clearIntervalRef_def clearInterval_def
        split: option.splits)

lemma transcript_live_handleDisconnect:
  "transcript (live_handleDisconnect l) = transcript l"
  by (simp add: live_handleDisconnect_def cancelAnimationFrameRef_def Let_def
        split: option.splits)

lemma transcript_mock_dispatch: "\<exists>ys. transcript (mock_dispatch e s) = transcript s @ ys"
  by (cases e) (auto simp: mock_defs Let_def split: option.splits timeout_cb.splits)

lemma transcript_live_dispatch: "\<exists>ys. transcript (live_dispatch e l) = transcript l @ ys"
  by (cases e) (auto simp: live_defs Let_def split: option.splits outcome.splits room_event.splits)

lemma length_transcript_mock_run: "length (transcript s) \<le> length (transcript (mock_run es s))"
proof (induction es arbitrary: s)
  case Nil
  show ?case by simp
next
  case (Cons e es)
  obtain ys where "transcript (mock_dispatch e s) = transcript s @ ys"
    using transcript_mock_dispatch by blast
  then have "length (transcript s) \<le> length (transcript (mock_dispatch e s))" by simp
  also have "\<dots> \<le> length (transcript (mock_run es (mock_dispatch e s)))" by (rule Cons.IH)
  finally show ?case by simp
qed

lemma length_transcript_live_run: "length (transcript l) \<le> length (transcript (live_run es l))"
proof (induction es arbitrary: l)
  case Nil
  show ?case by simp
next
  case (Cons e es)
  obtain ys where "transcript (live_dispatch e l) = transcript l @ ys"
    using transcript_live_dispatch by blast
  then have "length (transcript l) \<le> length (transcript (live_dispatch e l))" by simp
  also have "\<dots> \<le> length (transcript (live_run es (live_dispatch e l)))" by (rule Cons.IH)
  finally show ?case by simp
qed

lemma live_handleDisconnect_idem:
  "live_handleDisconnect (live_handleDisconnect l) = live_handleDisconnect l"
  by (cases "roomRef l"; cases "animationFrameRef l")
     (simp_all add: live_handleDisconnect_def cancelAnimationFrameRef_def Let_def)

subsection \<open>The speak toggle\<close>

text \<open>
  C1, as stated, fails. The claim: in a connected session a speak toggle received while the
  state is \<open>processing\<close> or \<open>speaking\<close> leaves the state unchanged. In the mocked revision the
  run connect, connected, toggle, toggle reaches a connected state in \<open>processing\<close>, and a
  further toggle takes it to \<open>listening\<close>: \<open>toggleRecording\<close> tests for \<open>listening\<close> only and
  every other state takes the start-recording branch.
\<close>

theorem toggle_while_processing_changes_state:
  "isConnected processingState \<and> botState processingState = Processing
   \<and> botState (toggleRecording processingState) = Listening"
  by (simp add: processingState_eq toggleRecording_def simulateVoiceActivity_def
        clearIntervalRef_def clearInterval_def)

text \<open>
  C1, amended. In a connected session a speak toggle received while the state is
  \<open>processing\<close> or \<open>speaking\<close> is handled exactly as one received in \<open>idle\<close>: the state it
  leaves is the state it would leave had the state been \<open>idle\<close>. In the mocked revision the
  state becomes \<open>listening\<close> and a new sampler interval of period 100 ms is started and
  stored in \<open>intervalRef\<close>. In the live revision (a room being held) the state becomes
  \<open>listening\<close>, or \<open>idle\<close> when enabling the microphone is rejected or, a track having come
  back, the stream or the visualizer throws. In both revisions the toggle leads to
  \<open>processing\<close> exactly when the state was \<open>listening\<close>. The view offers the orb and the talk
  button, not disabled, in every state of a connected session.
\<close>

theorem toggle_while_busy_starts_listening:
  assumes "isConnected s" and "isConnected l" and "roomRef l \<noteq> None"
  shows "(botState s = Processing \<or> botState s = Speaking \<longrightarrow>
            toggleRecording s = toggleRecording (s\<lparr>botState := Idle\<rparr>)
          \<and> botState (toggleRecording s) = Listening
          \<and> intervalRef (toggleRecording s) = Some (Suc (timerSeq s))
          \<and> (Suc (timerSeq s), 100) \<in> set (intervals (toggleRecording s)))
     \<and> (botState (toggleRecording s) = Processing \<longleftrightarrow> botState s = Listening)
     \<and> (botState l = Processing \<or> botState l = Speaking \<longrightarrow>
            live_toggleRecording mic stream graph read level now l =
              live_toggleRecording mic stream graph read level now (l\<lparr>botState := Idle\<rparr>)
          \<and> botState (live_toggleRecording mic stream graph read level now l) =
              (case mic of
                 Rejected e \<Rightarrow> Idle
               | Resolved hasTrack \<Rightarrow>
                   if hasTrack then
                     (case stream of
                        Rejected e \<Rightarrow> Idle
                      | Resolved u \<Rightarrow>
                          (case graph of
                             Rejected e \<Rightarrow> Idle
                           | Resolved u \<Rightarrow>
                               (case read of Rejected e \<Rightarrow> Idle | Resolved freq \<Rightarrow> Listening)))
                   else Listening))
     \<and> (botState (live_toggleRecording mic stream graph read level now l) = Processing
          \<longleftrightarrow> botState l = Listening)
     \<and> TalkButton False \<in> set (controls s) \<and> Orb \<in> set (controls s)
     \<and> TalkButton False \<in> set (controls l) \<and> Orb \<in> set (controls l)"
proof -
  have m1: "botState s = Processing \<or> botState s = Speaking \<longrightarrow>
            toggleRecording s = toggleRecording (s\<lparr>botState := Idle\<rparr>)
          \<and> botState (toggleRecording s) = Listening
          \<and> intervalRef (toggleRecording s) = Some (Suc (timerSeq s))
          \<and> (Suc (timerSeq s), 100) \<in> set (intervals (toggleRecording s))"
    using assms(1)
    by (auto simp: toggleRecording_def simulateVoiceActivity_def clearIntervalRef_def
          clearInterval_def Let_def split: option.splits)
  have m2: "botState (toggleRecording s) = Processing \<longleftrightarrow> botState s = Listening"
    using assms(1)
    by (auto simp: toggleRecording_def simulateVoiceActivity_def clearIntervalRef_def
          clearInterval_def setTimeout_def Let_def split: option.splits)
  have l1: "botState l = Processing \<or> botState l = Speaking \<longrightarrow>
            live_toggleRecording mic stream graph read level now l =
              live_toggleRecording mic stream graph read level now (l\<lparr>botState := Idle\<rparr>)"
    using assms(2,3) by (auto simp: live_toggleRecording_def)
  have l2: "botState l \<noteq> Listening \<Longrightarrow>
          botState (live_toggleRecording mic stream graph read level now l) =
              (case mic of
                 Rejected e \<Rightarrow> Idle
               | Resolved hasTrack \<Rightarrow>
                   if hasTrack then
                     (case stream of
                        Rejected e \<Rightarrow> Idle
                      | Resolved u \<Rightarrow>
                          (case graph of
                             Rejected e \<Rightarrow> Idle
                           | Resolved u \<Rightarrow>
                               (case read of Rejected e \<Rightarrow> Idle | Resolved freq \<Rightarrow> Listening)))
                   else Listening)"
    using assms(2,3)
    by (cases mic; cases stream; cases graph; cases read)
       (auto simp: live_toggleRecording_def setupRealVisualizer_def updateVolume_def
          micDenied_def addMessage_def Let_def)
  have l3: "botState (live_toggleRecording mic stream graph read level now l) = Processing
          \<longleftrightarrow> botState l = Listening"
  proof (cases "botState l = Listening")
    case True
    with assms(2,3) show ?thesis
      by (simp add: live_toggleRecording_def cancelAnimationFrameRef_def split: option.splits)
  next
    case False
    with l2 show ?thesis
      by (cases mic; cases stream; cases graph; cases read) (auto split: if_splits)
  qed
  have c: "TalkButton False \<in> set (controls s) \<and> Orb \<in> set (controls s)
     \<and> TalkButton False \<in> set (controls l) \<and> Orb \<in> set (controls l)"
    using assms(1,2) by (simp add: controls_def)
  from l2 have l2': "botState l = Processing \<or> botState l = Speaking \<longrightarrow>
          botState (live_toggleRecording mic stream graph read level now l) =
              (case mic of
                 Rejected e \<Rightarrow> Idle
               | Resolved hasTrack \<Rightarrow>
                   if hasTrack then
                     (case stream of
                        Rejected e \<Rightarrow> Idle
                      | Resolved u \<Rightarrow>
                          (case graph of
                             Rejected e \<Rightarrow> Idle
                           | Resolved u \<Rightarrow>
                               (case read of Rejected e \<Rightarrow> Idle | Resolved freq \<Rightarrow> Listening)))
                   else Listening)"
    by auto
  from m1 m2 l1 l2' l3 c show ?thesis by blast
qed

theorem toggle_while_busy_starts_listening_witness:
  "isConnected processingState \<and> botState processingState = Processing
   \<and> isConnected liveProcessingState \<and> roomRef liveProcessingState \<noteq> None
   \<and> botState liveProcessingState = Processing
   \<and> botState (toggleRecording processingState) = Listening
   \<and> intervals (toggleRecording processingState) = [(2, 100)]
   \<and> toggleRecording processingState = toggleRecording (processingState\<lparr>botState := Idle\<rparr>)
   \<and> botState (live_toggleRecording (Resolved True) (Resolved ()) (Resolved ())
        (Resolved (\<lambda>i. 0)) 0 4 liveProcessingState) = Listening
   \<and> botState (live_toggleRecording (Rejected ''NotAllowedError'') (Resolved ()) (Resolved ())
        (Resolved (\<lambda>i. 0)) 0 4 liveProcessingState) = Idle
   \<and> botState (live_toggleRecording (Resolved True) (Resolved ()) (Rejected ''NotSupportedError'')
        (Resolved (\<lambda>i. 0)) 0 4 liveProcessingState) = Idle"
proof -
  have h: "isConnected processingState" "botState processingState = Processing"
    "isConnected liveProcessingState" "roomRef liveProcessingState \<noteq> None"
    "botState liveProcessingState = Processing"
    by (simp_all add: processingState_eq liveProcessingState_eq)
  note t = toggle_while_busy_starts_listening [OF h(1) h(3) h(4)]
  have a: "botState (toggleRecording processingState) = Listening"
    "toggleRecording processingState = toggleRecording (processingState\<lparr>botState := Idle\<rparr>)"
    using t h(2) by blast+
  have b: "intervals (toggleRecording processingState) = [(2, 100)]"
    by (simp add: processingState_eq toggleRecording_def simulateVoiceActivity_def
          clearIntervalRef_def clearInterval_def)
  have busy: "botState liveProcessingState = Processing \<or> botState liveProcessingState = Speaking"
    using h(5) by simp
  have c1: "botState (live_toggleRecording (Resolved True) (Resolved ()) (Resolved ())
        (Resolved (\<lambda>i. 0)) 0 4 liveProcessingState) = Listening"
  proof -
    from t [of "Resolved True" "Resolved ()" "Resolved ()" "Resolved (\<lambda>i. 0)" 0 4] busy
    have "botState (live_toggleRecording (Resolved True) (Resolved ()) (Resolved ())
        (Resolved (\<lambda>i. 0)) 0 4 liveProcessingState) =
        (case (Resolved True :: bool outcome) of
           Rejected e \<Rightarrow> Idle
         | Resolved hasTrack \<Rightarrow>
             if hasTrack then
               (case (Resolved () :: unit outcome) of
                  Rejected e \<Rightarrow> Idle
                | Resolved u \<Rightarrow>
                    (case (Resolved () :: unit outcome) of
                       Rejected e \<Rightarrow> Idle
                     | Resolved u \<Rightarrow>
                         (case (Resolved (\<lambda>i. 0) :: (nat \<Rightarrow> nat) outcome) of
                            Rejected e \<Rightarrow> Idle
                          | Resolved freq \<Rightarrow> Listening)))
             else Listening)"
      by blast
    then show ?thesis by simp
  qed
  have c2: "botState (live_toggleRecording (Rejected ''NotAllowedError'') (Resolved ()) (Resolved ())
        (Resolved (\<lambda>i. 0)) 0 4 liveProcessingState) = Idle"
  proof -
    from t [of "Rejected ''NotAllowedError''" "Resolved ()" "Resolved ()" "Resolved (\<lambda>i. 0)" 0 4]
      busy
    have "botState (live_toggleRecording (Rejected ''NotAllowedError'') (Resolved ()) (Resolved ())
        (Resolved (\<lambda>i. 0)) 0 4 liveProcessingState) =
        (case (Rejected ''NotAllowedError'' :: bool outcome) of
           Rejected e \<Rightarrow> Idle
         | Resolved hasTrack \<Rightarrow>
             if hasTrack then
               (case (Resolved () :: unit outcome) of
                  Rejected e \<Rightarrow> Idle
                | Resolved u \<Rightarrow>
                    (case (Resolved () :: unit outcome) of
                       Rejected e \<Rightarrow> Idle
                     | Resolved u \<Rightarrow>
                         (case (Resolved (\<lambda>i. 0) :: (nat \<Rightarrow> nat) outcome) of
                            Rejected e \<Rightarrow> Idle
                          | Resolved freq \<Rightarrow> Listening)))
             else Listening)"
      by blast
    then show ?thesis by simp
  qed
  have c3: "botState (live_toggleRecording (Resolved True) (Resolved ()) (Rejected ''NotSupportedError'')
        (Resolved (\<lambda>i. 0)) 0 4 liveProcessingState) = Idle"
  proof -
    from t [of "Resolved True" "Resolved ()" "Rejected ''NotSupportedError''"
              "Resolved (\<lambda>i. 0)" 0 4] busy
    have "botState (live_toggleRecording (Resolved True) (Resolved ()) (Rejected ''NotSupportedError'')
        (Resolved (\<lambda>i. 0)) 0 4 liveProcessingState) =
        (case (Resolved True :: bool outcome) of
           Rejected e \<Rightarrow> Idle
         | Resolved hasTrack \<Rightarrow>
             if hasTrack then
               (case (Resolved () :: unit outcome) of
                  Rejected e \<Rightarrow> Idle
                | Resolved u \<Rightarrow>
                    (case (Rejected ''NotSupportedError'' :: unit outcome) of
                       Rejected e \<Rightarrow> Idle
                     | Resolved u \<Rightarrow>
                         (case (Resolved (\<lambda>i. 0) :: (nat \<Rightarrow> nat) outcome) of
                            Rejected e \<Rightarrow> Idle
                          | Resolved freq \<Rightarrow> Listening)))
             else Listening)"
      by blast
    then show ?thesis by simp
  qed
  from h a b c1 c2 c3 show ?thesis by simp
qed

text \<open>
  C2. When no session is connected (\<open>isConnected\<close> is false) the speak toggle changes
  nothing, in the mocked and in the live revision: the state after it is the state before
  it, so \<open>botState\<close>, \<open>audioLevel\<close> and \<open>transcript\<close> are as they were, and so are the timers
  and refs. The handler returns at its first statement, before any call that could throw.
\<close>

theorem toggle_disconnected_noop:
  assumes "\<not> isConnected s" and "\<not> isConnected l"
  shows "toggleRecording s = s
     \<and> botState (toggleRecording s) = botState s
     \<and> audioLevel (toggleRecording s) = audioLevel s
     \<and> transcript (toggleRecording s) = transcript s
     \<and> live_toggleRecording mic stream graph read level now l = l
     \<and> botState (live_toggleRecording mic stream graph read level now l) = botState l
     \<and> audioLevel (live_toggleRecording mic stream graph read level now l) = audioLevel l
     \<and> transcript (live_toggleRecording mic stream graph read level now l) = transcript l"
  using assms by (simp add: toggleRecording_def live_toggleRecording_def)

theorem toggle_disconnected_noop_witness:
  "\<not> isConnected mock_init \<and> \<not> isConnected live_init
   \<and> toggleRecording mock_init = mock_init
   \<and> live_toggleRecording (Resolved True) (Resolved ()) (Resolved ()) (Resolved (\<lambda>i. 0)) 0 0
        live_init = live_init"
proof -
  have a: "\<not> isConnected mock_init" by (simp add: mock_init_def)
  have b: "\<not> isConnected live_init" by (simp add: live_init_def)
  from toggle_disconnected_noop
         [OF a b, of "Resolved True" "Resolved ()" "Resolved ()" "Resolved (\<lambda>i. 0)" 0 0] a b
  show ?thesis by simp
qed

subsection \<open>Disconnecting\<close>

text \<open>
  C3, as stated, fails. The claim: from every state, after \<open>disconnect()\<close> the state is
  \<open>idle\<close> and a system "Disconnected" Utterance has been appended. The live
  \<open>handleDisconnect\<close> neither sets \<open>botState\<close> nor appends anything; both are left to the
  room's \<open>Disconnected\<close> listener. Called in the initial state (the unmount cleanup of a
  page that never connected) it leaves the transcript empty, and called while listening it
  leaves the state \<open>listening\<close>.
\<close>

theorem live_disconnect_without_room_keeps_state:
  "transcript (live_handleDisconnect live_init) = []
   \<and> botState (live_handleDisconnect liveListeningState) = Listening
   \<and> transcript (live_handleDisconnect liveListeningState) = transcript liveListeningState"
  by (simp add: live_init_def liveListeningState_eq live_handleDisconnect_def
        cancelAnimationFrameRef_def)

text \<open>
  C3, amended. In the mocked revision, from every reachable state, after
  \<open>handleDisconnect\<close> no sampler interval is running (a later tick of any handle writes
  nothing), \<open>audioLevel\<close> is 0, the state is \<open>idle\<close>, the session is not connected, and a
  system Utterance "Disconnected." has been appended. In the live revision, from every
  state, after \<open>handleDisconnect\<close> no room is held (\<open>disconnect()\<close> was called on the one that
  was), the session is not connected and \<open>audioLevel\<close> is 0; from every state in which at
  most one sampler loop runs, the one \<open>animationFrameRef\<close> holds, any running sampler loop is
  cancelled: no animation frame is pending and a later frame of any handle writes nothing.
  The live \<open>handleDisconnect\<close> leaves \<open>botState\<close> and \<open>transcript\<close> as they were, and it is
  the room's \<open>Disconnected\<close> listener that then sets \<open>idle\<close> and appends the system Utterance
  "Disconnected.".
\<close>

theorem disconnect_effects:
  assumes "mock_reachable s"
  shows "intervals (handleDisconnect now s) = []
     \<and> audioLevel (mock_dispatch (Tick h newLevel) (handleDisconnect now s)) = 0
     \<and> audioLevel (handleDisconnect now s) = 0
     \<and> botState (handleDisconnect now s) = Idle
     \<and> \<not> isConnected (handleDisconnect now s)
     \<and> transcript (handleDisconnect now s) =
         transcript s @ [\<lparr>role = System, msg_text = ''Disconnected.'', timestamp = now\<rparr>]
     \<and> roomRef (live_handleDisconnect l) = None
     \<and> disconnectCalls (live_handleDisconnect l) =
         disconnectCalls l @ (case roomRef l of None \<Rightarrow> [] | Some r \<Rightarrow> [roomId r])
     \<and> \<not> isConnected (live_handleDisconnect l)
     \<and> audioLevel (live_handleDisconnect l) = 0
     \<and> (liveSamplerInv l \<longrightarrow>
           frames (live_handleDisconnect l) = []
         \<and> audioLevel (live_dispatch (Frame h read level) (live_handleDisconnect l)) = 0)
     \<and> (\<forall>f. animationFrameRef l = Some f \<longrightarrow> f \<noteq> 0 \<longrightarrow> f \<notin> set (frames (live_handleDisconnect l)))
     \<and> botState (live_handleDisconnect l) = botState l
     \<and> transcript (live_handleDisconnect l) = transcript l
     \<and> botState (onDisconnected now (live_handleDisconnect l)) = Idle
     \<and> transcript (onDisconnected now (live_handleDisconnect l)) =
         transcript l @ [\<lparr>role = System, msg_text = ''Disconnected.'', timestamp = now\<rparr>]"
proof -
  have inv: "samplerInv (s\<lparr>isConnected := False, botState := Idle, audioLevel := 0\<rparr>)"
    using samplerInv_reachable [OF assms] by simp
  have none: "intervals (handleDisconnect now s) = []"
    using samplerInv_clear [OF inv] by (simp add: handleDisconnect_def addMessage_def)
  have zero: "audioLevel (handleDisconnect now s) = 0 \<and> botState (handleDisconnect now s) = Idle
     \<and> \<not> isConnected (handleDisconnect now s)"
    by (simp add: handleDisconnect_def addMessage_def clearIntervalRef_def clearInterval_def
          split: option.splits)
  have tick: "audioLevel (mock_dispatch (Tick h newLevel) (handleDisconnect now s)) = 0"
    using none zero by simp
  have live: "roomRef (live_handleDisconnect l) = None
     \<and> disconnectCalls (live_handleDisconnect l) =
         disconnectCalls l @ (case roomRef l of None \<Rightarrow> [] | Some r \<Rightarrow> [roomId r])
     \<and> \<not> isConnected (live_handleDisconnect l)
     \<and> audioLevel (live_handleDisconnect l) = 0
     \<and> botState (live_handleDisconnect l) = botState l"
    by (simp add: live_handleDisconnect_def cancelAnimationFrameRef_def Let_def
          split: option.splits)
  have fr: "liveSamplerInv l \<longrightarrow> frames (live_handleDisconnect l) = []"
    by (auto simp: liveSamplerInv_def live_handleDisconnect_def cancelAnimationFrameRef_def
          Let_def split: option.splits)
  have frame: "liveSamplerInv l \<longrightarrow>
      audioLevel (live_dispatch (Frame h read level) (live_handleDisconnect l)) = 0"
    using fr live by simp
  have held: "\<forall>f. animationFrameRef l = Some f \<longrightarrow> f \<noteq> 0 \<longrightarrow>
      f \<notin> set (frames (live_handleDisconnect l))"
    by (simp add: live_handleDisconnect_def cancelAnimationFrameRef_def Let_def
          split: option.splits)
  have ev: "botState (onDisconnected now (live_handleDisconnect l)) = Idle
     \<and> transcript (onDisconnected now (live_handleDisconnect l)) =
         transcript l @ [\<lparr>role = System, msg_text = ''Disconnected.'', timestamp = now\<rparr>]"
    by (simp add: onDisconnected_def addMessage_def transcript_live_handleDisconnect)
  from none zero tick live fr frame held ev show ?thesis
    by (simp add: transcript_handleDisconnect transcript_live_handleDisconnect)
qed

theorem disconnect_effects_witness:
  "mock_reachable listeningState
   \<and> liveSamplerInv liveListeningState
   \<and> intervals listeningState = [(1, 100)]
   \<and> intervals (handleDisconnect 9 listeningState) = []
   \<and> audioLevel (mock_dispatch (Tick 1 (1 / 2)) (handleDisconnect 9 listeningState)) = 0
   \<and> audioLevel (handleDisconnect 9 listeningState) = 0
   \<and> botState (handleDisconnect 9 listeningState) = Idle
   \<and> animationFrameRef liveListeningState = Some 1
   \<and> frames liveListeningState = [1]
   \<and> frames (live_handleDisconnect liveListeningState) = []
   \<and> audioLevel (live_dispatch (Frame 1 (Resolved (\<lambda>i. 50)) (1 / 2))
        (live_handleDisconnect liveListeningState)) = 0
   \<and> botState (live_handleDisconnect liveListeningState) = Listening
   \<and> botState (onDisconnected 9 (live_handleDisconnect liveListeningState)) = Idle"
proof -
  note t = disconnect_effects
             [OF reachable_listeningState,
              of 9 1 "1 / 2" liveListeningState "Resolved (\<lambda>i. 50)" "1 / 2"]
  have a: "intervals listeningState = [(1, 100)]"
    by (simp add: listeningState_eq)
  have b: "frames liveListeningState = [1]" "botState liveListeningState = Listening"
    "animationFrameRef liveListeningState = Some 1"
    by (simp_all add: liveListeningState_eq)
  have c: "liveSamplerInv liveListeningState"
    by (simp add: liveSamplerInv_def b)
  from t c have d: "frames (live_handleDisconnect liveListeningState) = []"
    "audioLevel (live_dispatch (Frame 1 (Resolved (\<lambda>i. 50)) (1 / 2))
        (live_handleDisconnect liveListeningState)) = 0"
    by blast+
  from t have e: "intervals (handleDisconnect 9 listeningState) = []"
    "audioLevel (mock_dispatch (Tick 1 (1 / 2)) (handleDisconnect 9 listeningState)) = 0"
    "audioLevel (handleDisconnect 9 listeningState) = 0"
    "botState (handleDisconnect 9 listeningState) = Idle"
    "botState (live_handleDisconnect liveListeningState) = botState liveListeningState"
    "botState (onDisconnected 9 (live_handleDisconnect liveListeningState)) = Idle"
    by blast+
  from a b c d e reachable_listeningState show ?thesis by simp
qed

text \<open>
  The live revision does not itself keep to one sampler loop. \<open>setupRealVisualizer\<close> starts
  a loop without cancelling a running one, and the \<open>Disconnected\<close> listener cancels nothing.
  When the room drops during a listening turn and the session is connected and toggled
  again, two loops run; \<open>handleDisconnect\<close> then cancels the later one only, and the next
  frame of the earlier one writes \<open>audioLevel\<close> in a disconnected session.
\<close>

lemma live_earlier_loop_outlives_disconnect:
  "frames liveTwoLoopsState = [1, 2]
   \<and> animationFrameRef liveTwoLoopsState = Some 2
   \<and> frames (live_handleDisconnect liveTwoLoopsState) = [1]
   \<and> audioLevel (live_dispatch (Frame 1 (Resolved (\<lambda>i. 50)) (1 / 2))
        (live_handleDisconnect liveTwoLoopsState)) = 1 / 2
   \<and> \<not> isConnected (live_dispatch (Frame 1 (Resolved (\<lambda>i. 50)) (1 / 2))
        (live_handleDisconnect liveTwoLoopsState))"
  by (simp add: liveTwoLoopsState_def liveListeningState_eq live_defs truthy_def
        frequencyBinCount_def fftSize_def map_replicate_const)

text \<open>
  C5, as stated, fails. The claim: \<open>disconnect()\<close> twice in succession adds no second
  "Disconnected" entry. In the mocked revision \<open>handleDisconnect\<close> appends the entry on
  every call: two calls on a connected session leave two entries.
\<close>

theorem second_mock_disconnect_duplicates:
  "transcript (handleDisconnect 3 (handleDisconnect 2 connectedState)) =
     [\<lparr>role = System, msg_text = ''Connected to HF Inference Model.'', timestamp = 1\<rparr>,
      \<lparr>role = System, msg_text = ''Disconnected.'', timestamp = 2\<rparr>,
      \<lparr>role = System, msg_text = ''Disconnected.'', timestamp = 3\<rparr>]"
  by (simp add: connectedState_eq handleDisconnect_def addMessage_def clearIntervalRef_def)

text \<open>
  C5, amended. In the live revision a second \<open>handleDisconnect\<close> in immediate succession
  changes nothing: the state after two calls is the state after one, \<open>disconnect()\<close> is
  called on the room once, and the transcript is the one before the first call, so no
  "Disconnected." entry is added by either call itself. In the mocked revision every call
  of \<open>handleDisconnect\<close> appends one "Disconnected." entry, and after the first call the
  view renders the orb and the connect button only, not the disconnect button. The handlers
  are total: no call raises.
\<close>

theorem disconnect_twice:
  "live_handleDisconnect (live_handleDisconnect l) = live_handleDisconnect l
   \<and> transcript (live_handleDisconnect (live_handleDisconnect l)) = transcript l
   \<and> disconnectCalls (live_handleDisconnect (live_handleDisconnect l)) =
       disconnectCalls l @ (case roomRef l of None \<Rightarrow> [] | Some r \<Rightarrow> [roomId r])
   \<and> transcript (handleDisconnect t2 (handleDisconnect t1 s)) =
       transcript s @ [\<lparr>role = System, msg_text = ''Disconnected.'', timestamp = t1\<rparr>,
                       \<lparr>role = System, msg_text = ''Disconnected.'', timestamp = t2\<rparr>]
   \<and> controls (handleDisconnect t1 s) = [Orb, ConnectButton]"
proof -
  have "disconnectCalls (live_handleDisconnect l) =
       disconnectCalls l @ (case roomRef l of None \<Rightarrow> [] | Some r \<Rightarrow> [roomId r])"
    by (simp add: live_handleDisconnect_def cancelAnimationFrameRef_def Let_def
          split: option.splits)
  moreover have "controls (handleDisconnect t1 s) = [Orb, ConnectButton]"
    by (simp add: controls_def handleDisconnect_def addMessage_def clearIntervalRef_def
          clearInterval_def split: option.splits)
  ultimately show ?thesis
    by (simp add: live_handleDisconnect_idem transcript_live_handleDisconnect
          transcript_handleDisconnect)
qed

text \<open>
  C8. \<open>disconnect()\<close> never clears the transcript. In the mocked revision the transcript
  after \<open>handleDisconnect\<close> is the one before with one entry appended, so its first entries
  are the old ones, unmodified and in order. In the live revision \<open>handleDisconnect\<close> leaves
  the transcript as it was, and the \<open>Disconnected\<close> listener that follows appends to it.
\<close>

theorem disconnect_keeps_transcript:
  "transcript (handleDisconnect now s) =
     transcript s @ [\<lparr>role = System, msg_text = ''Disconnected.'', timestamp = now\<rparr>]
   \<and> take (length (transcript s)) (transcript (handleDisconnect now s)) = transcript s
   \<and> transcript (live_handleDisconnect l) = transcript l
   \<and> take (length (transcript l)) (transcript (onDisconnected now (live_handleDisconnect l))) =
       transcript l"
  by (simp add: transcript_handleDisconnect transcript_live_handleDisconnect
        onDisconnected_def addMessage_def)

subsection \<open>Connecting\<close>

text \<open>
  C4, evaluated where the code departs from it. The claim: after a failed \<open>connect()\<close> the
  state is \<open>idle\<close>, one system Utterance describes the failure, and no connection handle is
  held. The token arrives and \<open>room.connect\<close> is rejected: the state is \<open>idle\<close>, the failure
  is reported, and \<open>roomRef\<close> still holds the room, with its listeners registered. The room
  was stored before the connection attempt and the \<open>catch\<close> block does not release it.
\<close>

theorem connect_transport_failure_keeps_room:
  "roomRef (live_handleConnect 0 (Resolved (Some ''jwt'')) (Rejected ''boom'') 1 live_init) =
     Some (newRoom 1)
   \<and> botState (live_handleConnect 0 (Resolved (Some ''jwt'')) (Rejected ''boom'') 1 live_init) = Idle
   \<and> \<not> isConnected (live_handleConnect 0 (Resolved (Some ''jwt'')) (Rejected ''boom'') 1 live_init)
   \<and> transcript (live_handleConnect 0 (Resolved (Some ''jwt'')) (Rejected ''boom'') 1 live_init) =
       [\<lparr>role = System, msg_text = ''Connecting to Server...'', timestamp = 0\<rparr>,
        \<lparr>role = System, msg_text = ''Connection failed: boom'', timestamp = 1\<rparr>]"
  by (simp add: live_init_def live_defs truthy_def)

text \<open>
  The rest of C4 holds on every failing run: the state is \<open>idle\<close>, and the run appends the
  "Connecting to Server..." entry and then one entry that describes the failure. A run that
  fails before the token is accepted creates no room.
\<close>

lemma connect_failure_reported:
  assumes "fetched = Rejected e
           \<or> (\<exists>tok. fetched = Resolved tok \<and> \<not> truthy tok \<and> e = ''No token received'')
           \<or> (\<exists>tok. fetched = Resolved tok \<and> truthy tok \<and> joined = Rejected e)"
  shows "botState (live_handleConnect now fetched joined later s) = Idle
     \<and> transcript (live_handleConnect now fetched joined later s) =
         transcript s @ [\<lparr>role = System, msg_text = ''Connecting to Server...'', timestamp = now\<rparr>,
                         \<lparr>role = System, msg_text = ''Connection failed: '' @ e, timestamp = later\<rparr>]
     \<and> isConnected (live_handleConnect now fetched joined later s) = isConnected s"
  using assms by (auto simp: live_defs Let_def)

lemma credential_failure_creates_no_room:
  assumes "fetched = Rejected e \<or> (\<exists>tok. fetched = Resolved tok \<and> \<not> truthy tok)"
  shows "roomRef (live_handleConnect now fetched joined later s) = roomRef s"
  using assms by (auto simp: live_defs Let_def)

subsection \<open>Timers that outlive the session\<close>

text \<open>
  C6. In the mocked revision, take a connected session that is listening. The toggle sets
  \<open>processing\<close> and leaves the response timeout pending. \<open>handleDisconnect\<close>, called before
  that timeout fires, resets the state to \<open>idle\<close> and marks the session disconnected, and
  the timeout is still pending: the pending timeouts are the same. When it fires the state
  becomes \<open>speaking\<close>, a user Utterance is appended, the sampler runs again and the playback
  timeout is pending; when that fires a bot Utterance is appended. The session is
  disconnected throughout.
\<close>

theorem timers_survive_disconnect:
  assumes "isConnected s" and "botState s = Listening"
  shows
    "let s1 = toggleRecording s;
         s2 = handleDisconnect t1 s1;
         s3 = mock_dispatch (FireTimeout ResponseReady 1500 t2) s2;
         s4 = mock_dispatch (FireTimeout PlaybackDone 3000 t3) s3
     in botState s1 = Processing
      \<and> (ResponseReady, 1500) \<in> set (timeouts s1)
      \<and> timeouts s2 = timeouts s1
      \<and> botState s2 = Idle \<and> \<not> isConnected s2
      \<and> botState s3 = Speaking \<and> \<not> isConnected s3
      \<and> transcript s3 = transcript s2 @ [\<lparr>role = User, msg_text = userText, timestamp = t2\<rparr>]
      \<and> intervals s3 \<noteq> []
      \<and> (PlaybackDone, 3000) \<in> set (timeouts s3)
      \<and> transcript s4 = transcript s3 @ [\<lparr>role = Bot, msg_text = botText, timestamp = t3\<rparr>]
      \<and> \<not> isConnected s4"
  using assms
  by (simp add: Let_def mock_defs split: option.splits)

theorem timers_survive_disconnect_witness:
  "isConnected listeningState \<and> botState listeningState = Listening
   \<and> botState (mock_run [ClickToggle, ClickDisconnect 5] listeningState) = Idle
   \<and> \<not> isConnected (mock_run [ClickToggle, ClickDisconnect 5] listeningState)
   \<and> timeouts (mock_run [ClickToggle, ClickDisconnect 5] listeningState) = [(ResponseReady, 1500)]
   \<and> botState (mock_run [ClickToggle, ClickDisconnect 5, FireTimeout ResponseReady 1500 6]
         listeningState) = Speaking
   \<and> transcript (mock_run [ClickToggle, ClickDisconnect 5, FireTimeout ResponseReady 1500 6,
         FireTimeout PlaybackDone 3000 7] listeningState) =
       [\<lparr>role = System, msg_text = ''Connected to HF Inference Model.'', timestamp = 1\<rparr>,
        \<lparr>role = System, msg_text = ''Disconnected.'', timestamp = 5\<rparr>,
        \<lparr>role = User, msg_text = userText, timestamp = 6\<rparr>,
        \<lparr>role = Bot, msg_text = botText, timestamp = 7\<rparr>]
   \<and> \<not> isConnected (mock_run [ClickToggle, ClickDisconnect 5, FireTimeout ResponseReady 1500 6,
         FireTimeout PlaybackDone 3000 7] listeningState)"
proof -
  note t = timers_survive_disconnect [of listeningState 5 6 7]
  from t show ?thesis
    by (simp add: Let_def listeningState_eq mock_defs)
qed

subsection \<open>The synthetic sampler\<close>

text \<open>
  What the model holds of the mocked sampler: in a reachable state a running interval is
  the only one, it is the one \<open>intervalRef\<close> holds and its period is 100 ms; a tick of a
  running interval writes the number its callback computed, and a tick of a cleared
  interval writes nothing.
\<close>

lemma running_interval_unique:
  assumes "mock_reachable s" and "h \<in> fst ` set (intervals s)"
  shows "intervals s = [(h, 100)] \<and> intervalRef s = Some h"
  using samplerInv_reachable [OF assms(1)] assms(2)
  by (auto simp: samplerInv_def split: option.splits)

lemma tick_writes_level:
  "audioLevel (mock_dispatch (Tick h newLevel) s) =
     (if h \<in> fst ` set (intervals s) then newLevel else audioLevel s)"
  by (simp add: intervalTick_def)

subsection \<open>The transcript\<close>

text \<open>
  C9. \<open>addMessage\<close> makes the transcript longer by exactly one entry, the Utterance of the
  given role and text stamped with the current time, and \<open>lastMessage\<close> read right after is
  that Utterance. No operation of either revision, and so no run of operations, makes the
  transcript shorter.
\<close>

theorem addMessage_appends_one:
  "length (transcript (addMessage r t now a)) = length (transcript a) + 1
   \<and> lastMessage (addMessage r t now a) = Some \<lparr>role = r, msg_text = t, timestamp = now\<rparr>
   \<and> transcript (addMessage r t now a) = transcript a @ [\<lparr>role = r, msg_text = t, timestamp = now\<rparr>]
   \<and> length (transcript s) \<le> length (transcript (mock_dispatch e s))
   \<and> length (transcript s) \<le> length (transcript (mock_run es s))
   \<and> length (transcript l) \<le> length (transcript (live_dispatch e' l))
   \<and> length (transcript l) \<le> length (transcript (live_run es' l))"
proof -
  have "length (transcript s) \<le> length (transcript (mock_dispatch e s))"
    using length_transcript_mock_run [of s "[e]"] by simp
  moreover have "length (transcript l) \<le> length (transcript (live_dispatch e' l))"
    using length_transcript_live_run [of l "[e']"] by simp
  ultimately show ?thesis
    by (simp add: addMessage_def lastMessage_def length_transcript_mock_run
          length_transcript_live_run)
qed

subsection \<open>The token endpoint\<close>

text \<open>
  C10. A server credential is present when its environment variable is set and not empty.
  The handler answers with status 200 and a body \<open>{ accessToken }\<close> exactly when both
  credentials are present, and with an error status (500) and a body \<open>{ error }\<close> exactly
  when one is missing. The token behind an issued \<open>accessToken\<close> grants \<open>roomJoin\<close>,
  \<open>canPublish\<close> and \<open>canSubscribe\<close> for the room "voice-bot-room"; its identity is "user-"
  followed by characters of a random draw made by the handler, and the answer does not
  depend on the request.
\<close>

theorem token_endpoint:
  "((\<exists>jwt. GET toJwt req envKey envSecret rnd36 = \<lparr>status = 200, body = AccessTokenBody jwt\<rparr>)
      \<longleftrightarrow> truthy envKey \<and> truthy envSecret)
   \<and> ((\<exists>msg. body (GET toJwt req envKey envSecret rnd36) = ErrorBody msg
             \<and> 400 \<le> status (GET toJwt req envKey envSecret rnd36))
      \<longleftrightarrow> \<not> (truthy envKey \<and> truthy envSecret))
   \<and> (truthy envKey \<and> truthy envSecret \<longrightarrow>
        body (GET toJwt req envKey envSecret rnd36) =
          AccessTokenBody (toJwt (issuedToken (the envKey) (the envSecret) rnd36)))
   \<and> video (issuedToken k sec rnd36) =
       Some \<lparr>roomJoin = True, room = ''voice-bot-room'', canPublish = True, canSubscribe = True\<rparr>
   \<and> identity (issuedToken k sec rnd36) = ''user-'' @ drop 7 rnd36
   \<and> GET toJwt req envKey envSecret rnd36 = GET toJwt req' envKey envSecret rnd36"
  by (auto simp: GET_def issuedToken_def addGrant_def AccessToken_def)

theorem token_endpoint_witness:
  "truthy (Some ''key'') \<and> truthy (Some ''secret'') \<and> \<not> truthy None \<and> \<not> truthy (Some [])
   \<and> GET (\<lambda>tok. identity tok) () (Some ''key'') (Some ''secret'') ''0.4fzyo82mvyr'' =
       \<lparr>status = 200, body = AccessTokenBody ''user-82mvyr''\<rparr>
   \<and> GET (\<lambda>tok. identity tok) () None (Some ''secret'') ''0.4fzyo82mvyr'' =
       \<lparr>status = 500, body = ErrorBody ''Server misconfigured''\<rparr>
   \<and> GET (\<lambda>tok. identity tok) () (Some ''key'') (Some []) ''0.4fzyo82mvyr'' =
       \<lparr>status = 500, body = ErrorBody ''Server misconfigured''\<rparr>"
proof -
  note t1 = token_endpoint
              [of "\<lambda>tok. identity tok" "()" "Some ''key''" "Some ''secret''" "''0.4fzyo82mvyr''"
                  "''key''" "''secret''" "()"]
  note t2 = token_endpoint
              [of "\<lambda>tok. identity tok" "()" None "Some ''secret''" "''0.4fzyo82mvyr''"
                  "''key''" "''secret''" "()"]
  have tr: "truthy (Some ''key'')" "truthy (Some ''secret'')" "\<not> truthy None" "\<not> truthy (Some [])"
    by (simp_all add: truthy_def)
  have g3: "GET (\<lambda>tok. identity tok) () (Some ''key'') (Some []) ''0.4fzyo82mvyr'' =
       \<lparr>status = 500, body = ErrorBody ''Server misconfigured''\<rparr>"
    by (simp add: GET_def truthy_def)
  have g2: "GET (\<lambda>tok. identity tok) () None (Some ''secret'') ''0.4fzyo82mvyr'' =
       \<lparr>status = 500, body = ErrorBody ''Server misconfigured''\<rparr>"
    using t2 tr by (simp add: GET_def)
  have g1: "GET (\<lambda>tok. identity tok) () (Some ''key'') (Some ''secret'') ''0.4fzyo82mvyr'' =
       \<lparr>status = 200, body = AccessTokenBody ''user-82mvyr''\<rparr>"
    using t1 tr by (simp add: GET_def issuedToken_def addGrant_def AccessToken_def)
  from tr g1 g2 g3 show ?thesis by simp
qed

end
